theory Spec2Isabelle
  imports Complex_Main
begin

section \<open>JavaScript values reaching the sampler\<close>

text \<open>
  The sampling code of \<^verbatim>\<open>packages/tracing/src/hubextensions.ts\<close> receives the candidate
  rate as \<^verbatim>\<open>unknown\<close>: any JavaScript value. The model keeps every primitive kind, and an
  object (or function) as what the built-ins used by the code observe of it.
\<close>

text \<open>Exceptions: the \<^verbatim>\<open>TypeError\<close> of a built-in, or whatever user code throws.\<close>

datatype exn = TypeError | Thrown string

text \<open>
  A Number. Only comparisons are ever made on it, never arithmetic, so a finite double is
  taken as the real number it denotes (both zeros are \<open>Fin 0\<close>).
\<close>

datatype jsnum = NaN | Fin real | PosInf | NegInf

text \<open>
  \<^item> \<open>JStr s n\<close>: the string \<open>s\<close>, with the Number \<open>n\<close> that the built-in conversion
    \<^verbatim>\<open>ToNumber\<close> gives for it (the numeric-literal grammar of strings is not modelled);
  \<^item> \<open>JObject callable num json\<close>: an object; \<open>callable\<close> tells a function from another
    object, \<open>num\<close> is the outcome of \<^verbatim>\<open>ToNumber\<close> on it (its \<^verbatim>\<open>valueOf\<close>/\<^verbatim>\<open>toString\<close>
    are user code and may throw), \<open>json\<close> is the exception \<^verbatim>\<open>JSON.stringify\<close> raises on
    it, if any (a cyclic structure, a throwing \<^verbatim>\<open>toJSON\<close>).
\<close>

datatype jsval =
    JUndefined
  | JNull
  | JBool bool
  | JNum jsnum
  | JStr string jsnum
  | JSymbol
  | JBigInt int
  | JObject bool "exn + jsnum" "exn option"

text \<open>The \<^verbatim>\<open>typeof\<close> operator.\<close>

fun typeof :: "jsval \<Rightarrow> string" where
  "typeof JUndefined = ''undefined''"
| "typeof JNull = ''object''"
| "typeof (JBool b) = ''boolean''"
| "typeof (JNum n) = ''number''"
| "typeof (JStr s n) = ''string''"
| "typeof JSymbol = ''symbol''"
| "typeof (JBigInt i) = ''bigint''"
| "typeof (JObject callable num json) = (if callable then ''function'' else ''object'')"

text \<open>
  The abstract operation \<^verbatim>\<open>ToNumber\<close> of ECMAScript: a Symbol and a BigInt raise
  \<^verbatim>\<open>TypeError\<close>.
\<close>

fun ToNumber :: "jsval \<Rightarrow> exn + jsnum" where
  "ToNumber JUndefined = Inr NaN"
| "ToNumber JNull = Inr (Fin 0)"
| "ToNumber (JBool b) = Inr (Fin (if b then 1 else 0))"
| "ToNumber (JNum n) = Inr n"
| "ToNumber (JStr s n) = Inr n"
| "ToNumber JSymbol = Inl TypeError"
| "ToNumber (JBigInt i) = Inl TypeError"
| "ToNumber (JObject callable num json) = num"

text \<open>The global \<^verbatim>\<open>isNaN\<close>: it converts its argument with \<^verbatim>\<open>ToNumber\<close> first.\<close>

definition isNaN :: "jsval \<Rightarrow> exn + bool" where
  "isNaN v = (case ToNumber v of Inl e \<Rightarrow> Inl e | Inr n \<Rightarrow> Inr (n = NaN))"

text \<open>\<^verbatim>\<open>ToBoolean\<close>, which the operator \<^verbatim>\<open>!\<close> applies.\<close>

fun ToBoolean :: "jsval \<Rightarrow> bool" where
  "ToBoolean JUndefined = False"
| "ToBoolean JNull = False"
| "ToBoolean (JBool b) = b"
| "ToBoolean (JNum n) = (n \<noteq> NaN \<and> n \<noteq> Fin 0)"
| "ToBoolean (JStr s n) = (s \<noteq> [])"
| "ToBoolean JSymbol = True"
| "ToBoolean (JBigInt i) = (i \<noteq> 0)"
| "ToBoolean (JObject callable num json) = True"

text \<open>The operator \<^verbatim>\<open><\<close> on two Numbers: false as soon as one of them is \<open>NaN\<close>.\<close>

fun lessNum :: "jsnum \<Rightarrow> jsnum \<Rightarrow> bool" where
  "lessNum NaN y = False"
| "lessNum x NaN = False"
| "lessNum (Fin a) (Fin b) = (a < b)"
| "lessNum (Fin a) PosInf = True"
| "lessNum (Fin a) NegInf = False"
| "lessNum PosInf y = False"
| "lessNum NegInf (Fin b) = True"
| "lessNum NegInf PosInf = True"
| "lessNum NegInf NegInf = False"

text \<open>
  The exception that \<^verbatim>\<open>JSON.stringify\<close> raises on a value, if any: a BigInt cannot be
  serialised.
\<close>

fun JSON_stringify_throws :: "jsval \<Rightarrow> exn option" where
  "JSON_stringify_throws (JBigInt i) = Some TypeError"
| "JSON_stringify_throws (JObject callable num json) = json"
| "JSON_stringify_throws v = None"

section \<open>The logger and the random source\<close>

text \<open>
  A message is a template string: its literal text and the interpolated expressions, kept
  symbolic (the formatting of Numbers is not modelled).
\<close>

datatype msgPart =
    Text string
  | JsonOf jsval
  | JsonOfTypeof jsval
  | StringOf jsval
  | NumberOf jsval

datatype logEntry = Warn "msgPart list" | Log "msgPart list"

text \<open>
  What the code reaches outside its arguments: the calls made to \<^verbatim>\<open>logger\<close>, oldest first,
  and \<^verbatim>\<open>Math.random\<close>, as the sequence \<open>rng\<close> of the numbers it returns and the count
  \<open>drawn\<close> of those consumed so far.
\<close>

record world =
  logger :: "logEntry list"
  rng :: "nat \<Rightarrow> real"
  drawn :: nat

definition logger_warn :: "msgPart list \<Rightarrow> world \<Rightarrow> world" where
  "logger_warn m w = w\<lparr>logger := logger w @ [Warn m]\<rparr>"

definition logger_log :: "msgPart list \<Rightarrow> world \<Rightarrow> world" where
  "logger_log m w = w\<lparr>logger := logger w @ [Log m]\<rparr>"

definition Math_random :: "world \<Rightarrow> real \<times> world" where
  "Math_random w = (rng w (drawn w), w\<lparr>drawn := Suc (drawn w)\<rparr>)"

section \<open>Configuration, transactions and the hub\<close>

text \<open>
  The \<^verbatim>\<open>SampleContext\<close> handed to a sampler: the parent's decision, if there is one, and
  the snapshots of the request and of the location, kept opaque.
\<close>

record sampleContext =
  parentSampled :: "bool option"
  request :: "string option"
  location :: "string option"

text \<open>
  What is stored under the option \<^verbatim>\<open>tracesSampler\<close>: a function, which is user code (it
  may throw, log and draw random numbers), or some value that is not a function.
\<close>

datatype sampler =
    SamplerFunction "sampleContext \<Rightarrow> world \<Rightarrow> (exn + jsval) \<times> world"
  | SamplerValue jsval

record experiments =
  maxSpans :: "nat option"

text \<open>
  The client's options. \<open>None\<close> is a key that is absent; \<open>experiments\<close> is the option
  \<^verbatim>\<open>_experiments\<close>.
\<close>

record options =
  tracesSampleRate :: "jsval option"
  tracesSampler :: "sampler option"
  experiments :: "experiments option"

record client =
  getOptions :: options

datatype spanRecorder = SpanRecorder "nat option"

record span =
  traceId :: string
  spanId :: string
  parentSpanId :: "string option"
  sampled :: "bool option"

record transaction = span +
  spanRecorder :: "spanRecorder option"

record scope =
  getSpan :: "span option"

record hub =
  getClient :: "client option"
  getScope :: "scope option"

text \<open>
  Modelled from the spec: \<^verbatim>\<open>hasTracingEnabled\<close> of \<^verbatim>\<open>./utils\<close>, which is not among the
  sources. Sampling is enabled only if at least one of \<^verbatim>\<open>tracesSampler\<close> and
  \<^verbatim>\<open>tracesSampleRate\<close> is configured.
\<close>

definition hasTracingEnabled :: "options \<Rightarrow> bool" where
  "hasTracingEnabled opts =
     (tracesSampleRate opts \<noteq> None \<or> tracesSampler opts \<noteq> None)"

text \<open>
  Modelled from the spec: \<^verbatim>\<open>Transaction.initSpanRecorder\<close> of \<^verbatim>\<open>./transaction\<close>, which is
  not among the sources. It gives the transaction a span recorder with the cap it is
  called with (no cap when the argument is undefined).
\<close>

definition initSpanRecorder :: "nat option \<Rightarrow> transaction \<Rightarrow> transaction" where
  "initSpanRecorder maxlen t = t\<lparr>spanRecorder := Some (SpanRecorder maxlen)\<rparr>"

text \<open>
  Modelled from the spec: \<^verbatim>\<open>Span.toTraceparent\<close> of \<^verbatim>\<open>./span\<close>, which is not among the
  sources. The wire grammar is \<^verbatim>\<open><traceId>-<spanId>[-<sampledFlag>]\<close>, the flag \<^verbatim>\<open>1\<close> for
  sampled, \<^verbatim>\<open>0\<close> for not sampled, and left out while the decision is not made.
\<close>

definition toTraceparent :: "span \<Rightarrow> string" where
  "toTraceparent s =
     traceId s @ ''-'' @ spanId s @
       (case sampled s of None \<Rightarrow> [] | Some True \<Rightarrow> ''-1'' | Some False \<Rightarrow> ''-0'')"

section \<open>Trace headers\<close>

text \<open>\<^verbatim>\<open>traceHeaders\<close>: the headers of the span that is on the top scope.\<close>

definition traceHeaders :: "hub \<Rightarrow> (string \<rightharpoonup> string)" where
  "traceHeaders this =
     (case getScope this of
        None \<Rightarrow> Map.empty
      | Some scope \<Rightarrow>
          (case getSpan scope of
             None \<Rightarrow> Map.empty
           | Some span' \<Rightarrow> [''sentry-trace'' \<mapsto> toTraceparent span']))"

section \<open>The sampling decision\<close>

text \<open>\<^verbatim>\<open>_inheritOrUseGivenRate\<close>: the parent's decision if there is one, else the given rate.\<close>

definition inheritOrUseGivenRate :: "bool option \<Rightarrow> jsval \<Rightarrow> jsval" where
  "inheritOrUseGivenRate parentSampled' givenRate =
     (case parentSampled' of Some b \<Rightarrow> JBool b | None \<Rightarrow> givenRate)"

text \<open>
  \<^verbatim>\<open>isValidSampleRate\<close>. The result is the exception raised, or the boolean returned; the
  arguments of \<^verbatim>\<open>logger.warn\<close> are evaluated before the call, so an exception of
  \<^verbatim>\<open>JSON.stringify\<close> leaves the logger as it was.
\<close>

definition isValidSampleRate :: "jsval \<Rightarrow> world \<Rightarrow> (exn + bool) \<times> world" where
  "isValidSampleRate rate w =
     (case isNaN rate of
        Inl e \<Rightarrow> (Inl e, w)
      | Inr nan \<Rightarrow>
          if nan \<or> \<not> (typeof rate = ''number'' \<or> typeof rate = ''boolean'') then
            (case JSON_stringify_throws rate of
               Some e \<Rightarrow> (Inl e, w)
             | None \<Rightarrow>
                 (Inr False,
                  logger_warn
                    [Text ''[Tracing] Given sample rate is invalid. Sample rate must be a boolean or a number between 0 and 1. Got '',
                     JsonOf rate, Text '' of type '', JsonOfTypeof rate, Text ''.''] w))
          else
            (case ToNumber rate of
               Inl e \<Rightarrow> (Inl e, w)
             | Inr n \<Rightarrow>
                 if lessNum n (Fin 0) \<or> lessNum (Fin 1) n then
                   (Inr False,
                    logger_warn
                      [Text ''[Tracing] Given sample rate is invalid. Sample rate must be between 0 and 1. Got '',
                       StringOf rate, Text ''.''] w)
                 else (Inr True, w)))"

text \<open>
  \<open>isFunction\<close> is the test \<^verbatim>\<open>typeof options.tracesSampler === 'function'\<close>, and
  \<open>readRate\<close> the property read \<^verbatim>\<open>options.tracesSampleRate\<close>: a key that is absent
  reads as \<^verbatim>\<open>undefined\<close>.
\<close>

definition isFunction :: "sampler option \<Rightarrow> bool" where
  "isFunction s = (case s of Some (SamplerFunction f) \<Rightarrow> True | _ \<Rightarrow> False)"

definition readRate :: "options \<Rightarrow> jsval" where
  "readRate opts = (case tracesSampleRate opts of None \<Rightarrow> JUndefined | Some v \<Rightarrow> v)"

text \<open>
  The candidate rate, the constant \<^verbatim>\<open>sampleRate\<close> of \<^verbatim>\<open>sample\<close>: the hook's answer when
  \<^verbatim>\<open>tracesSampler\<close> is a function, else the inherited or the static rate.
\<close>

definition sampleRate :: "options \<Rightarrow> sampleContext \<Rightarrow> world \<Rightarrow> (exn + jsval) \<times> world" where
  "sampleRate opts sampleContext' w =
     (case tracesSampler opts of
        Some (SamplerFunction f) \<Rightarrow> f sampleContext' w
      | _ \<Rightarrow> (Inr (inheritOrUseGivenRate (parentSampled sampleContext') (readRate opts)), w))"

text \<open>
  The rest of \<^verbatim>\<open>sample\<close>, once the candidate rate is known: validation, the falsy rate,
  the dice and the span recorder. The result is the exception raised, if any, the
  transaction as the call leaves it (it is mutated in place, and returned), and the world.
\<close>

definition sampleGivenRate ::
  "options \<Rightarrow> transaction \<Rightarrow> jsval \<Rightarrow> world \<Rightarrow> exn option \<times> transaction \<times> world" where
  "sampleGivenRate opts t rate w =
     (case isValidSampleRate rate w of
        (Inl e, w1) \<Rightarrow> (Some e, t, w1)
      | (Inr False, w1) \<Rightarrow>
          (None, t\<lparr>sampled := Some False\<rparr>,
           logger_warn [Text ''[Tracing] Discarding transaction because of invalid sample rate.''] w1)
      | (Inr True, w1) \<Rightarrow>
          if \<not> ToBoolean rate then
            (None, t\<lparr>sampled := Some False\<rparr>,
             logger_log
               [Text ''[Tracing] Discarding transaction because '',
                Text (if isFunction (tracesSampler opts)
                      then ''tracesSampler returned 0 or false''
                      else ''tracesSampleRate is set to 0'')] w1)
          else
            (case Math_random w1 of
               (u, w2) \<Rightarrow>
                 (case ToNumber rate of
                    Inl e \<Rightarrow> (Some e, t, w2)
                  | Inr n \<Rightarrow>
                      if \<not> lessNum (Fin u) n then
                        (None, t\<lparr>sampled := Some False\<rparr>,
                         logger_log
                           [Text ''[Tracing] Discarding transaction because it's not included in the random sample (sampling rate = '',
                            NumberOf rate, Text '')''] w2)
                      else
                        (None,
                         initSpanRecorder
                           (case experiments opts of None \<Rightarrow> None | Some x \<Rightarrow> maxSpans x)
                           (t\<lparr>sampled := Some True\<rparr>),
                         w2))))"

text \<open>The empty object \<^verbatim>\<open>{}\<close> that stands for the options when there is no client.\<close>

definition emptyOptions :: options where
  "emptyOptions = \<lparr>tracesSampleRate = None, tracesSampler = None, experiments = None\<rparr>"

text \<open>\<^verbatim>\<open>sample\<close>: the sampling decision for a transaction, stored on the transaction.\<close>

definition sample ::
  "hub \<Rightarrow> transaction \<Rightarrow> sampleContext \<Rightarrow> world \<Rightarrow> exn option \<times> transaction \<times> world" where
  "sample hub' t sampleContext' w =
     (let client' = getClient hub';
          options' = (case client' of None \<Rightarrow> emptyOptions | Some c \<Rightarrow> getOptions c)
      in
        if client' = None \<or> \<not> hasTracingEnabled options' then
          (None, t\<lparr>sampled := Some False\<rparr>, w)
        else
          (case sampleRate options' sampleContext' w of
             (Inl e, w1) \<Rightarrow> (Some e, t, w1)
           | (Inr rate, w1) \<Rightarrow> sampleGivenRate options' t rate w1))"

section \<open>Registration of the extensions\<close>

text \<open>
  An extension method: one of the two functions of this module, \<^verbatim>\<open>_startTransaction\<close> and
  \<^verbatim>\<open>traceHeaders\<close>, or some other implementation. The carrier's table is typed \<^verbatim>\<open>{ [key: string]: Function }\<close>, so a key
  that is present holds a function, which is truthy.
\<close>

datatype extension = StartTransaction | TraceHeaders | Other nat

record sentryGlobal =
  extensions :: "(string \<rightharpoonup> extension) option"
  globalHub :: "nat option"

text \<open>
  A carrier, here the global object; \<open>sentry\<close> is its property \<^verbatim>\<open>__SENTRY__\<close>, and
  \<open>globalHub\<close> the property \<^verbatim>\<open>hub\<close> of that.
\<close>

record carrier =
  sentry :: "sentryGlobal option"

text \<open>
  \<^verbatim>\<open>getMainCarrier\<close>, which \<^verbatim>\<open>_addTracingExtensions\<close> imports from \<^verbatim>\<open>@sentry/hub\<close>; its code
  is not among the sources, and the specification does not describe it. It is taken as
  that package publishes it: the carrier is the global object, on which
  \<^verbatim>\<open>__SENTRY__ = { extensions: {}, hub: undefined }\<close> is installed first when the property
  is missing.
\<close>

definition getMainCarrier :: "carrier \<Rightarrow> carrier" where
  "getMainCarrier global =
     (case sentry global of
        None \<Rightarrow> global\<lparr>sentry := Some \<lparr>extensions = Some Map.empty, globalHub = None\<rparr>\<rparr>
      | Some s \<Rightarrow> global)"

text \<open>
  One of the two guarded assignments: \<^verbatim>\<open>if (!extensions[k]) { extensions[k] = f; }\<close>.
\<close>

definition registerIfMissing ::
  "string \<Rightarrow> extension \<Rightarrow> (string \<rightharpoonup> extension) \<Rightarrow> (string \<rightharpoonup> extension)" where
  "registerIfMissing k f exts = (case exts k of None \<Rightarrow> exts(k \<mapsto> f) | Some g \<Rightarrow> exts)"

text \<open>
  \<^verbatim>\<open>_addTracingExtensions\<close>: from the global object as the call finds it to the global
  object as the call leaves it.
\<close>

definition addTracingExtensions :: "carrier \<Rightarrow> carrier" where
  "addTracingExtensions global =
     (let carrier' = getMainCarrier global in
        case sentry carrier' of
          None \<Rightarrow> carrier'
        | Some s \<Rightarrow>
            carrier'\<lparr>sentry := Some (s\<lparr>extensions :=
                Some (registerIfMissing ''traceHeaders'' TraceHeaders
                       (registerIfMissing ''startTransaction'' StartTransaction
                          (case extensions s of None \<Rightarrow> Map.empty | Some e \<Rightarrow> e)))\<rparr>)\<rparr>)"

text \<open>The implementation registered under a name, if any.\<close>

definition registered :: "carrier \<Rightarrow> string \<Rightarrow> extension option" where
  "registered c k =
     (case sentry c of
        None \<Rightarrow> None
      | Some s \<Rightarrow> (case extensions s of None \<Rightarrow> None | Some e \<Rightarrow> e k))"

section \<open>Reading a result, and the words of the specification\<close>

text \<open>The three parts of what \<open>sample\<close> and \<open>sampleGivenRate\<close> return.\<close>

definition thrown :: "exn option \<times> transaction \<times> world \<Rightarrow> exn option" where
  "thrown r = fst r"

definition txnOf :: "exn option \<times> transaction \<times> world \<Rightarrow> transaction" where
  "txnOf r = fst (snd r)"

definition worldOf :: "exn option \<times> transaction \<times> world \<Rightarrow> world" where
  "worldOf r = snd (snd r)"

text \<open>
  A valid rate in the words of the specification: a boolean, or a number that is not NaN
  and lies in the closed interval from 0 to 1.
\<close>

fun validRate :: "jsval \<Rightarrow> bool" where
  "validRate (JBool b) = True"
| "validRate (JNum (Fin r)) = (0 \<le> r \<and> r \<le> 1)"
| "validRate v = False"

text \<open>The number a valid rate stands for: a boolean coerces to 1 when true, 0 when false.\<close>

fun rateValue :: "jsval \<Rightarrow> real" where
  "rateValue (JBool b) = (if b then 1 else 0)"
| "rateValue (JNum (Fin r)) = r"
| "rateValue v = 0"

subsection \<open>Concrete inputs\<close>

definition exWorld :: world where
  "exWorld = \<lparr>logger = [], rng = (\<lambda>n. 1 / 2), drawn = 0\<rparr>"

definition exTransaction :: transaction where
  "exTransaction =
     \<lparr>traceId = ''abc123'', spanId = ''def456'', parentSpanId = None, sampled = None,
      spanRecorder = None\<rparr>"

definition exContext :: "bool option \<Rightarrow> sampleContext" where
  "exContext p = \<lparr>parentSampled = p, request = None, location = None\<rparr>"

text \<open>
  Options with the given \<^verbatim>\<open>tracesSampleRate\<close> and \<^verbatim>\<open>tracesSampler\<close>, and a hub whose client
  has them.
\<close>

definition exOptions :: "jsval option \<Rightarrow> sampler option \<Rightarrow> options" where
  "exOptions r s = \<lparr>tracesSampleRate = r, tracesSampler = s, experiments = None\<rparr>"

definition exHub :: "jsval option \<Rightarrow> sampler option \<Rightarrow> hub" where
  "exHub r s = \<lparr>getClient = Some \<lparr>getOptions = exOptions r s\<rparr>, getScope = None\<rparr>"

definition noClientHub :: hub where
  "noClientHub = \<lparr>getClient = None, getScope = None\<rparr>"

text \<open>A hub whose top scope holds the span of the given identifiers and decision.\<close>

definition exSpanHub :: "string \<Rightarrow> string \<Rightarrow> bool option \<Rightarrow> hub" where
  "exSpanHub tid sid d =
     \<lparr>getClient = None,
      getScope = Some \<lparr>getSpan =
        Some \<lparr>traceId = tid, spanId = sid, parentSpanId = None, sampled = d\<rparr>\<rparr>\<rparr>"

text \<open>A hook that throws, and one that answers a fixed value.\<close>

definition throwingHook :: "exn \<Rightarrow> sampleContext \<Rightarrow> world \<Rightarrow> (exn + jsval) \<times> world" where
  "throwingHook e sampleContext' w = (Inl e, w)"

definition constantHook :: "jsval \<Rightarrow> sampleContext \<Rightarrow> world \<Rightarrow> (exn + jsval) \<times> world" where
  "constantHook v sampleContext' w = (Inr v, w)"

text \<open>A carrier on which another module registered its own \<^verbatim>\<open>startTransaction\<close>.\<close>

definition exCarrier :: carrier where
  "exCarrier =
     \<lparr>sentry = Some \<lparr>extensions = Some [''startTransaction'' \<mapsto> Other 7], globalHub = None\<rparr>\<rparr>"

section \<open>Properties of the rate validator\<close>

lemma isValidSampleRate_valid: "validRate rate \<Longrightarrow> isValidSampleRate rate w = (Inr True, w)"
  by (cases rate rule: validRate.cases) (auto simp: isValidSampleRate_def isNaN_def)

text \<open>The validator answers true on the valid rates and on no other value.\<close>

lemma isValidSampleRate_accepts_iff:
  "(\<exists>w1. isValidSampleRate rate w = (Inr True, w1)) \<longleftrightarrow> validRate rate"
  by (cases rate rule: validRate.cases)
     (auto simp: isValidSampleRate_def isNaN_def split: sum.splits option.splits if_splits)

text \<open>
  An invalid rate is answered false, with a warning, whenever the two built-ins applied
  to it, \<^verbatim>\<open>isNaN\<close> and \<^verbatim>\<open>JSON.stringify\<close>, do not throw: so on every undefined, null, number
  and string.
\<close>

lemma isValidSampleRate_rejects:
  assumes "\<not> validRate rate" and "ToNumber rate = Inr n" and "JSON_stringify_throws rate = None"
  shows "\<exists>m. isValidSampleRate rate w = (Inr False, logger_warn m w)"
  using assms
  by (cases rate rule: validRate.cases)
     (auto simp: isValidSampleRate_def isNaN_def split: sum.splits option.splits if_splits)

lemma isValidSampleRate_examples:
  "fst (isValidSampleRate (JStr ''0.5'' (Fin (1 / 2))) exWorld) = Inr False"
  "fst (isValidSampleRate (JNum NaN) exWorld) = Inr False"
  "fst (isValidSampleRate (JNum (Fin (- 1))) exWorld) = Inr False"
  "fst (isValidSampleRate (JNum (Fin (3 / 2))) exWorld) = Inr False"
  "fst (isValidSampleRate (JNum (Fin 1)) exWorld) = Inr True"
  by (simp_all add: isValidSampleRate_def isNaN_def)

text \<open>
  Claim C3. \<^verbatim>\<open>isValidSampleRate\<close> is to return true exactly on a boolean or a number
  that is not NaN and lies in [0, 1], and on every other input to return false with a
  diagnostic rather than throw. The code throws on some other inputs: its first test is
  the global \<^verbatim>\<open>isNaN\<close>, evaluated before the test of the type, and \<^verbatim>\<open>isNaN\<close> converts
  its argument to a Number, which raises \<^verbatim>\<open>TypeError\<close> on a Symbol and on a BigInt. On
  these two inputs the call raises \<^verbatim>\<open>TypeError\<close> and nothing is logged.
\<close>

theorem isValidSampleRate_throws_on_symbol_and_bigint:
  "isValidSampleRate JSymbol w = (Inl TypeError, w) \<and>
   isValidSampleRate (JBigInt 10) w = (Inl TypeError, w)"
  by (simp add: isValidSampleRate_def isNaN_def)

section \<open>Properties of the sampling decision\<close>

text \<open>With a client and tracing enabled, \<open>sample\<close> decides on the candidate rate.\<close>

lemma sample_enabled:
  assumes "getClient h = Some c" and "hasTracingEnabled (getOptions c)"
  shows "sample h t ctx w =
    (case sampleRate (getOptions c) ctx w of
       (Inl e, w1) \<Rightarrow> (Some e, t, w1)
     | (Inr rate, w1) \<Rightarrow> sampleGivenRate (getOptions c) t rate w1)"
  using assms by (simp add: sample_def Let_def split: prod.splits sum.splits)

lemma sampleRate_without_hook:
  assumes "\<not> isFunction (tracesSampler opts)"
  shows "sampleRate opts ctx w =
    (Inr (case parentSampled ctx of Some b \<Rightarrow> JBool b | None \<Rightarrow> readRate opts), w)"
  using assms
  by (auto simp: sampleRate_def isFunction_def inheritOrUseGivenRate_def
      split: option.splits sampler.splits)

text \<open>
  Claim C1. With a client present and tracing enabled: if \<^verbatim>\<open>tracesSampler\<close> is a
  function, it is invoked with the sample context and what it returns is the candidate
  rate; otherwise, if \<^verbatim>\<open>parentSampled\<close> is defined, the candidate rate is that boolean;
  otherwise it is the configured \<^verbatim>\<open>tracesSampleRate\<close>, the value stored under that key
  (\<^verbatim>\<open>undefined\<close> when the key is absent). The decision of \<open>sample\<close> is made on that
  candidate rate.
\<close>

theorem sample_candidate_rate_precedence:
  assumes client: "getClient h = Some c" and enabled: "hasTracingEnabled (getOptions c)"
  shows "(\<forall>f. tracesSampler (getOptions c) = Some (SamplerFunction f) \<longrightarrow>
            sampleRate (getOptions c) ctx w = f ctx w) \<and>
         (\<forall>b. (\<forall>f. tracesSampler (getOptions c) \<noteq> Some (SamplerFunction f)) \<and>
              parentSampled ctx = Some b \<longrightarrow>
            sampleRate (getOptions c) ctx w = (Inr (JBool b), w)) \<and>
         (\<forall>v. (\<forall>f. tracesSampler (getOptions c) \<noteq> Some (SamplerFunction f)) \<and>
              parentSampled ctx = None \<and> tracesSampleRate (getOptions c) = Some v \<longrightarrow>
            sampleRate (getOptions c) ctx w = (Inr v, w)) \<and>
         ((\<forall>f. tracesSampler (getOptions c) \<noteq> Some (SamplerFunction f)) \<and>
              parentSampled ctx = None \<and> tracesSampleRate (getOptions c) = None \<longrightarrow>
            sampleRate (getOptions c) ctx w = (Inr JUndefined, w)) \<and>
         sample h t ctx w =
           (case sampleRate (getOptions c) ctx w of
              (Inl e, w1) \<Rightarrow> (Some e, t, w1)
            | (Inr rate, w1) \<Rightarrow> sampleGivenRate (getOptions c) t rate w1)"
proof (intro conjI allI impI)
  fix f assume "tracesSampler (getOptions c) = Some (SamplerFunction f)"
  then show "sampleRate (getOptions c) ctx w = f ctx w"
    by (simp add: sampleRate_def)
next
  fix b
  assume "(\<forall>f. tracesSampler (getOptions c) \<noteq> Some (SamplerFunction f)) \<and>
    parentSampled ctx = Some b"
  then show "sampleRate (getOptions c) ctx w = (Inr (JBool b), w)"
    by (auto simp: sampleRate_def inheritOrUseGivenRate_def split: option.splits sampler.splits)
next
  fix v
  assume "(\<forall>f. tracesSampler (getOptions c) \<noteq> Some (SamplerFunction f)) \<and>
    parentSampled ctx = None \<and> tracesSampleRate (getOptions c) = Some v"
  then show "sampleRate (getOptions c) ctx w = (Inr v, w)"
    by (auto simp: sampleRate_def inheritOrUseGivenRate_def readRate_def
        split: option.splits sampler.splits)
next
  assume "(\<forall>f. tracesSampler (getOptions c) \<noteq> Some (SamplerFunction f)) \<and>
    parentSampled ctx = None \<and> tracesSampleRate (getOptions c) = None"
  then show "sampleRate (getOptions c) ctx w = (Inr JUndefined, w)"
    by (auto simp: sampleRate_def inheritOrUseGivenRate_def readRate_def
        split: option.splits sampler.splits)
next
  show "sample h t ctx w =
           (case sampleRate (getOptions c) ctx w of
              (Inl e, w1) \<Rightarrow> (Some e, t, w1)
            | (Inr rate, w1) \<Rightarrow> sampleGivenRate (getOptions c) t rate w1)"
    by (rule sample_enabled [OF client enabled])
qed

text \<open>
  The branches at concrete inputs. The hook answers false while the parent was sampled
  and the static rate is 1: the hook wins. Without a hook the parent's false wins over
  the static rate 1. Without either, the static rate 1 is the candidate, and \<open>sample\<close>
  decides on it. With \<^verbatim>\<open>tracesSampler\<close> set to \<^verbatim>\<open>null\<close> and no \<^verbatim>\<open>tracesSampleRate\<close>, the
  candidate is \<^verbatim>\<open>undefined\<close>.
\<close>

theorem sample_candidate_rate_precedence_witness:
  "sampleRate (exOptions (Some (JNum (Fin 1))) (Some (SamplerFunction (constantHook (JBool False)))))
      (exContext (Some True)) exWorld = (Inr (JBool False), exWorld) \<and>
   sampleRate (exOptions (Some (JNum (Fin 1))) None) (exContext (Some False)) exWorld =
      (Inr (JBool False), exWorld) \<and>
   sampleRate (exOptions (Some (JNum (Fin 1))) None) (exContext None) exWorld =
      (Inr (JNum (Fin 1)), exWorld) \<and>
   sampleRate (exOptions None (Some (SamplerValue JNull))) (exContext None) exWorld =
      (Inr JUndefined, exWorld) \<and>
   sample (exHub (Some (JNum (Fin 1))) None) exTransaction (exContext None) exWorld =
      sampleGivenRate (exOptions (Some (JNum (Fin 1))) None) exTransaction (JNum (Fin 1)) exWorld"
proof -
  let ?hook = "SamplerFunction (constantHook (JBool False))"
  let ?c1 = "\<lparr>getOptions = exOptions (Some (JNum (Fin 1))) (Some ?hook)\<rparr>"
  let ?c2 = "\<lparr>getOptions = exOptions (Some (JNum (Fin 1))) None\<rparr>"
  let ?c3 = "\<lparr>getOptions = exOptions None (Some (SamplerValue JNull))\<rparr>"
  have client1: "getClient (exHub (Some (JNum (Fin 1))) (Some ?hook)) = Some ?c1"
    and client2: "getClient (exHub (Some (JNum (Fin 1))) None) = Some ?c2"
    and client3: "getClient (exHub None (Some (SamplerValue JNull))) = Some ?c3"
    by (simp_all add: exHub_def)
  have enabled1: "hasTracingEnabled (getOptions ?c1)"
    and enabled2: "hasTracingEnabled (getOptions ?c2)"
    and enabled3: "hasTracingEnabled (getOptions ?c3)"
    by (simp_all add: hasTracingEnabled_def exOptions_def)
  have hooked: "tracesSampler (getOptions ?c1) = Some ?hook"
    by (simp add: exOptions_def)
  have plain2: "\<forall>f. tracesSampler (getOptions ?c2) \<noteq> Some (SamplerFunction f)"
    and plain3: "\<forall>f. tracesSampler (getOptions ?c3) \<noteq> Some (SamplerFunction f)"
    by (simp_all add: exOptions_def)
  have static2: "tracesSampleRate (getOptions ?c2) = Some (JNum (Fin 1))"
    and static3: "tracesSampleRate (getOptions ?c3) = None"
    by (simp_all add: exOptions_def)
  have parent: "parentSampled (exContext p) = p" for p
    by (simp add: exContext_def)
  have "sampleRate (getOptions ?c1) (exContext (Some True)) exWorld =
      constantHook (JBool False) (exContext (Some True)) exWorld"
    using sample_candidate_rate_precedence [OF client1 enabled1] hooked by blast
  moreover have "sampleRate (getOptions ?c2) (exContext (Some False)) exWorld =
      (Inr (JBool False), exWorld)"
    using sample_candidate_rate_precedence [OF client2 enabled2] plain2 parent by blast
  moreover have static: "sampleRate (getOptions ?c2) (exContext None) exWorld =
      (Inr (JNum (Fin 1)), exWorld)"
    using sample_candidate_rate_precedence [OF client2 enabled2] plain2 parent static2 by blast
  moreover have "sampleRate (getOptions ?c3) (exContext None) exWorld = (Inr JUndefined, exWorld)"
    using sample_candidate_rate_precedence [OF client3 enabled3] plain3 parent static3 by blast
  moreover have "sample (exHub (Some (JNum (Fin 1))) None) exTransaction (exContext None) exWorld =
      sampleGivenRate (getOptions ?c2) exTransaction (JNum (Fin 1)) exWorld"
    using sample_candidate_rate_precedence [OF client2 enabled2, of "exContext None" exWorld exTransaction]
      static by simp
  ultimately show ?thesis
    by (simp add: constantHook_def)
qed

text \<open>What \<open>sampleGivenRate\<close> does on the two booleans and on the valid rates that are truthy.\<close>

lemma sampleGivenRate_false:
  "sampleGivenRate opts t (JBool False) w =
    (None, t\<lparr>sampled := Some False\<rparr>,
     logger_log
       [Text ''[Tracing] Discarding transaction because '',
        Text (if isFunction (tracesSampler opts)
              then ''tracesSampler returned 0 or false''
              else ''tracesSampleRate is set to 0'')] w)"
  by (simp add: sampleGivenRate_def isValidSampleRate_valid)

lemma sampleGivenRate_true:
  assumes "rng w (drawn w) < 1"
  shows "sampleGivenRate opts t (JBool True) w =
    (None,
     initSpanRecorder (case experiments opts of None \<Rightarrow> None | Some x \<Rightarrow> maxSpans x)
       (t\<lparr>sampled := Some True\<rparr>),
     w\<lparr>drawn := Suc (drawn w)\<rparr>)"
  using assms by (simp add: sampleGivenRate_def isValidSampleRate_valid Math_random_def)

lemma sampleGivenRate_valid_truthy:
  assumes "validRate rate" and "ToBoolean rate"
  shows "thrown (sampleGivenRate opts t rate w) = None"
    and "sampled (txnOf (sampleGivenRate opts t rate w)) = Some (rng w (drawn w) < rateValue rate)"
  using assms
  by (cases rate rule: validRate.cases;
      auto simp: sampleGivenRate_def isValidSampleRate_valid Math_random_def thrown_def txnOf_def
        initSpanRecorder_def)+

text \<open>
  Claim C2. For every valid, truthy candidate rate the transaction's \<^verbatim>\<open>sampled\<close> is set
  to true iff the random draw, a number of [0, 1), is strictly less than the rate, a
  boolean rate counting as 1 when true and 0 when false. So the candidate rate true
  always gives sampled = true, and the candidate rate false always gives sampled = false.
  The draw is the next number of \<^verbatim>\<open>Math.random\<close> once the candidate rate is known.
\<close>

theorem sample_final_gate:
  assumes client: "getClient h = Some c" and enabled: "hasTracingEnabled (getOptions c)"
    and rate: "sampleRate (getOptions c) ctx w = (Inr rate, w1)"
    and draw: "0 \<le> rng w1 (drawn w1) \<and> rng w1 (drawn w1) < 1"
  shows "(validRate rate \<and> ToBoolean rate \<longrightarrow>
            thrown (sample h t ctx w) = None \<and>
            sampled (txnOf (sample h t ctx w)) = Some (rng w1 (drawn w1) < rateValue rate)) \<and>
         (rate = JBool True \<longrightarrow> sampled (txnOf (sample h t ctx w)) = Some True) \<and>
         (rate = JBool False \<longrightarrow> sampled (txnOf (sample h t ctx w)) = Some False)"
proof -
  have run: "sample h t ctx w = sampleGivenRate (getOptions c) t rate w1"
    using sample_enabled [OF client enabled] rate by simp
  have "sampled (txnOf (sampleGivenRate (getOptions c) t (JBool True) w1)) = Some True"
    using draw by (simp add: sampleGivenRate_true txnOf_def initSpanRecorder_def)
  moreover have "sampled (txnOf (sampleGivenRate (getOptions c) t (JBool False) w1)) = Some False"
    by (simp add: sampleGivenRate_false txnOf_def)
  ultimately show ?thesis
    using run sampleGivenRate_valid_truthy by auto
qed

text \<open>
  With the draw 1/2: the rate 3/4 keeps the transaction, the rate 1/4 drops it, true
  keeps it and false drops it.
\<close>

theorem sample_final_gate_witness:
  "sampled (txnOf (sample (exHub (Some (JNum (Fin (3 / 4)))) None) exTransaction
      (exContext None) exWorld)) = Some True \<and>
   sampled (txnOf (sample (exHub (Some (JNum (Fin (1 / 4)))) None) exTransaction
      (exContext None) exWorld)) = Some False \<and>
   sampled (txnOf (sample (exHub (Some (JBool True)) None) exTransaction
      (exContext None) exWorld)) = Some True \<and>
   sampled (txnOf (sample (exHub (Some (JBool False)) None) exTransaction
      (exContext None) exWorld)) = Some False"
proof -
  have client: "getClient (exHub (Some v) None) = Some \<lparr>getOptions = exOptions (Some v) None\<rparr>"
    for v by (simp add: exHub_def)
  have enabled: "hasTracingEnabled (getOptions \<lparr>getOptions = exOptions (Some v) None\<rparr>)"
    for v by (simp add: hasTracingEnabled_def exOptions_def)
  have rate: "sampleRate (getOptions \<lparr>getOptions = exOptions (Some v) None\<rparr>) (exContext None)
      exWorld = (Inr v, exWorld)" for v
    by (simp add: sampleRate_def exOptions_def exContext_def inheritOrUseGivenRate_def
        readRate_def)
  have draw: "0 \<le> rng exWorld (drawn exWorld) \<and> rng exWorld (drawn exWorld) < 1"
    and half: "rng exWorld (drawn exWorld) = 1 / 2"
    by (simp_all add: exWorld_def)
  note gate = sample_final_gate [OF client enabled rate draw, of _ exTransaction]
  show ?thesis
    using gate [of "JNum (Fin (3 / 4))"] gate [of "JNum (Fin (1 / 4))"]
      gate [of "JBool True"] gate [of "JBool False"]
    by (simp add: half)
qed

text \<open>
  Claim C4, as stated: if \<^verbatim>\<open>parentSampled\<close> is true and no custom sampler is configured,
  the decision is always true, whatever the static rate. It fails before the rate is
  looked at: \<open>sample\<close> first drops the transaction when the hub has no client, or when
  neither option is configured, and there the parent's decision is not read.
\<close>

theorem sample_parent_true_dropped_when_disabled:
  "sampled (txnOf (sample noClientHub exTransaction (exContext (Some True)) exWorld)) =
      Some False \<and>
   sampled (txnOf (sample (exHub None None) exTransaction (exContext (Some True)) exWorld)) =
      Some False"
  by (simp add: sample_def txnOf_def exHub_def noClientHub_def exOptions_def
      hasTracingEnabled_def)

text \<open>
  Claim C4, amended: with a client present and tracing enabled, if \<^verbatim>\<open>parentSampled\<close> is
  true and \<^verbatim>\<open>tracesSampler\<close> is not a function, the decision is always true, whatever the
  static rate is. The draw of \<^verbatim>\<open>Math.random\<close>, which is below 1, is still made.
\<close>

theorem sample_inherits_parent_true:
  assumes client: "getClient h = Some c" and enabled: "hasTracingEnabled (getOptions c)"
    and nohook: "\<not> isFunction (tracesSampler (getOptions c))"
    and parent: "parentSampled ctx = Some True"
    and draw: "rng w (drawn w) < 1"
  shows "thrown (sample h t ctx w) = None \<and> sampled (txnOf (sample h t ctx w)) = Some True"
proof -
  have "sampleRate (getOptions c) ctx w = (Inr (JBool True), w)"
    using nohook parent by (simp add: sampleRate_without_hook)
  then have "sample h t ctx w = sampleGivenRate (getOptions c) t (JBool True) w"
    using sample_enabled [OF client enabled] by simp
  then show ?thesis
    using sampleGivenRate_true [OF draw] by (simp add: thrown_def txnOf_def initSpanRecorder_def)
qed

text \<open>The parent's true wins over the static rates 0 and \<^verbatim>\<open>"0.5"\<close>, an invalid one.\<close>

theorem sample_inherits_parent_true_witness:
  "sampled (txnOf (sample (exHub (Some (JNum (Fin 0))) None) exTransaction
      (exContext (Some True)) exWorld)) = Some True \<and>
   sampled (txnOf (sample (exHub (Some (JStr ''0.5'' (Fin (1 / 2)))) None) exTransaction
      (exContext (Some True)) exWorld)) = Some True"
proof -
  have client: "getClient (exHub (Some v) None) = Some \<lparr>getOptions = exOptions (Some v) None\<rparr>"
    for v by (simp add: exHub_def)
  have enabled: "hasTracingEnabled (getOptions \<lparr>getOptions = exOptions (Some v) None\<rparr>)"
    for v by (simp add: hasTracingEnabled_def exOptions_def)
  have nohook: "\<not> isFunction (tracesSampler (getOptions \<lparr>getOptions = exOptions (Some v) None\<rparr>))"
    for v by (simp add: isFunction_def exOptions_def)
  have parent: "parentSampled (exContext (Some True)) = Some True"
    by (simp add: exContext_def)
  have draw: "rng exWorld (drawn exWorld) < 1"
    by (simp add: exWorld_def)
  show ?thesis
    using sample_inherits_parent_true [OF client enabled nohook parent draw]
    by simp
qed

text \<open>
  Claim C5. When sampling is not enabled (no client, or neither \<^verbatim>\<open>tracesSampler\<close> nor
  \<^verbatim>\<open>tracesSampleRate\<close> configured), \<open>sample\<close> sets \<^verbatim>\<open>sampled\<close> to false and returns at
  once: nothing else of the transaction changes, so no span recorder is initialized, no
  random number is drawn, and nothing is logged.
\<close>

theorem sample_disabled_drops:
  assumes "getClient h = None \<or>
    (\<exists>c. getClient h = Some c \<and> tracesSampler (getOptions c) = None \<and>
         tracesSampleRate (getOptions c) = None)"
  shows "sample h t ctx w = (None, t\<lparr>sampled := Some False\<rparr>, w) \<and>
         spanRecorder (txnOf (sample h t ctx w)) = spanRecorder t \<and>
         drawn (worldOf (sample h t ctx w)) = drawn w \<and>
         logger (worldOf (sample h t ctx w)) = logger w"
proof -
  have "sample h t ctx w = (None, t\<lparr>sampled := Some False\<rparr>, w)"
    using assms by (auto simp: sample_def hasTracingEnabled_def)
  then show ?thesis
    by (simp add: txnOf_def worldOf_def)
qed

theorem sample_disabled_drops_witness:
  "sample noClientHub exTransaction (exContext None) exWorld =
     (None, exTransaction\<lparr>sampled := Some False\<rparr>, exWorld) \<and>
   sample (exHub None None) exTransaction (exContext None) exWorld =
     (None, exTransaction\<lparr>sampled := Some False\<rparr>, exWorld) \<and>
   spanRecorder (txnOf (sample (exHub None None) exTransaction (exContext None) exWorld)) = None \<and>
   drawn (worldOf (sample (exHub None None) exTransaction (exContext None) exWorld)) = 0"
proof -
  have "getClient noClientHub = None"
    by (simp add: noClientHub_def)
  then have first: "sample noClientHub exTransaction (exContext None) exWorld =
     (None, exTransaction\<lparr>sampled := Some False\<rparr>, exWorld)"
    using sample_disabled_drops [of noClientHub exTransaction "exContext None" exWorld] by simp
  have "\<exists>c. getClient (exHub None None) = Some c \<and> tracesSampler (getOptions c) = None \<and>
         tracesSampleRate (getOptions c) = None"
    by (simp add: exHub_def exOptions_def)
  then have "sample (exHub None None) exTransaction (exContext None) exWorld =
       (None, exTransaction\<lparr>sampled := Some False\<rparr>, exWorld) \<and>
     spanRecorder (txnOf (sample (exHub None None) exTransaction (exContext None) exWorld)) =
       spanRecorder exTransaction \<and>
     drawn (worldOf (sample (exHub None None) exTransaction (exContext None) exWorld)) =
       drawn exWorld"
    using sample_disabled_drops [of "exHub None None" exTransaction "exContext None" exWorld]
    by blast
  moreover have "spanRecorder exTransaction = None" and "drawn exWorld = 0"
    by (simp_all add: exTransaction_def exWorld_def)
  ultimately show ?thesis
    using first by (simp add: txnOf_def worldOf_def)
qed

text \<open>
  An invalid candidate rate drops the transaction, with the two warnings, no exception
  and no span recorder, whenever \<^verbatim>\<open>isNaN\<close> and \<^verbatim>\<open>JSON.stringify\<close> do not throw on it.
\<close>

lemma sampleGivenRate_rejects:
  assumes "\<not> validRate rate" and "ToNumber rate = Inr n" and "JSON_stringify_throws rate = None"
  shows "\<exists>m. sampleGivenRate opts t rate w =
    (None, t\<lparr>sampled := Some False\<rparr>,
     logger_warn [Text ''[Tracing] Discarding transaction because of invalid sample rate.'']
       (logger_warn m w))"
proof -
  obtain m where "isValidSampleRate rate w = (Inr False, logger_warn m w)"
    using isValidSampleRate_rejects [OF assms] by blast
  then show ?thesis by (auto simp: sampleGivenRate_def)
qed

lemma sample_invalid_examples:
  "thrown (sample (exHub (Some (JStr ''0.5'' (Fin (1 / 2)))) None) exTransaction (exContext None) exWorld) = None"
  "sampled (txnOf (sample (exHub (Some (JStr ''0.5'' (Fin (1 / 2)))) None) exTransaction (exContext None) exWorld)) = Some False"
  "sampled (txnOf (sample (exHub (Some (JNum NaN)) None) exTransaction (exContext None) exWorld)) = Some False"
  "sampled (txnOf (sample (exHub (Some (JNum (Fin (- 1)))) None) exTransaction (exContext None) exWorld)) = Some False"
  "sampled (txnOf (sample (exHub (Some (JNum (Fin (3 / 2)))) None) exTransaction (exContext None) exWorld)) = Some False"
  by (simp_all add: sample_def exHub_def exOptions_def hasTracingEnabled_def sampleRate_def
      exContext_def inheritOrUseGivenRate_def readRate_def sampleGivenRate_def isValidSampleRate_def
      isNaN_def thrown_def txnOf_def)

text \<open>
  Claim C6. For every invalid candidate rate \<open>sample\<close> is to set the decision to false,
  produce a diagnostic and return normally. The code does not on the invalid rates that
  make \<^verbatim>\<open>isNaN\<close> throw: with the static rate a Symbol, or a hook that answers a BigInt,
  the call of \<^verbatim>\<open>isValidSampleRate\<close> raises \<^verbatim>\<open>TypeError\<close>, which \<open>sample\<close> does not catch;
  the decision stays unmade and nothing is logged.
\<close>

theorem sample_throws_on_symbol_rate:
  "sample (exHub (Some JSymbol) None) exTransaction (exContext None) exWorld =
     (Some TypeError, exTransaction, exWorld) \<and>
   sample (exHub None (Some (SamplerFunction (constantHook (JBigInt 10))))) exTransaction
     (exContext None) exWorld = (Some TypeError, exTransaction, exWorld) \<and>
   sampled exTransaction = None"
  by (simp add: sample_def exHub_def exOptions_def hasTracingEnabled_def sampleRate_def
      exContext_def inheritOrUseGivenRate_def readRate_def sampleGivenRate_def isValidSampleRate_def
      isNaN_def constantHook_def exTransaction_def)

text \<open>
  Claim C7. If the \<^verbatim>\<open>tracesSampler\<close> hook throws, \<open>sample\<close> does not catch the exception:
  it propagates to the caller, and the transaction's \<^verbatim>\<open>sampled\<close> is left as it was.
\<close>

theorem sample_hook_exception_propagates:
  assumes client: "getClient h = Some c"
    and hook: "tracesSampler (getOptions c) = Some (SamplerFunction f)"
    and throws: "f ctx w = (Inl e, w1)"
  shows "sample h t ctx w = (Some e, t, w1) \<and> sampled (txnOf (sample h t ctx w)) = sampled t"
proof -
  have "hasTracingEnabled (getOptions c)"
    using hook by (simp add: hasTracingEnabled_def)
  moreover have "sampleRate (getOptions c) ctx w = (Inl e, w1)"
    using hook throws by (simp add: sampleRate_def)
  ultimately have "sample h t ctx w = (Some e, t, w1)"
    using sample_enabled [OF client] by simp
  then show ?thesis by (simp add: txnOf_def)
qed

theorem sample_hook_exception_propagates_witness:
  "sample (exHub None (Some (SamplerFunction (throwingHook (Thrown ''boom''))))) exTransaction
      (exContext None) exWorld = (Some (Thrown ''boom''), exTransaction, exWorld) \<and>
   sampled (txnOf (sample (exHub None (Some (SamplerFunction (throwingHook (Thrown ''boom'')))))
      exTransaction (exContext None) exWorld)) = None"
proof -
  let ?f = "throwingHook (Thrown ''boom'')"
  have client: "getClient (exHub None (Some (SamplerFunction ?f))) =
      Some \<lparr>getOptions = exOptions None (Some (SamplerFunction ?f))\<rparr>"
    by (simp add: exHub_def)
  have hook: "tracesSampler (getOptions \<lparr>getOptions = exOptions None (Some (SamplerFunction ?f))\<rparr>) =
      Some (SamplerFunction ?f)"
    by (simp add: exOptions_def)
  have throws: "?f (exContext None) exWorld = (Inl (Thrown ''boom''), exWorld)"
    by (simp add: throwingHook_def)
  show ?thesis
    using sample_hook_exception_propagates [OF client hook throws, of exTransaction]
    by (simp add: txnOf_def exTransaction_def)
qed

section \<open>Properties of the trace headers\<close>

text \<open>
  Claim C9. \<^verbatim>\<open>traceHeaders\<close> returns the empty mapping when there is no scope or no span
  on the scope; otherwise a mapping with the one key \<^verbatim>\<open>sentry-trace\<close>, whose value is the
  trace id, a dash, the span id and, once the decision is made, a dash and the flag 1 or
  0.
\<close>

theorem traceHeaders_contract:
  "(getScope h = None \<longrightarrow> traceHeaders h = Map.empty) \<and>
   (\<forall>sc. getScope h = Some sc \<and> getSpan sc = None \<longrightarrow> traceHeaders h = Map.empty) \<and>
   (\<forall>sc s. getScope h = Some sc \<and> getSpan sc = Some s \<longrightarrow>
      dom (traceHeaders h) = {''sentry-trace''} \<and>
      traceHeaders h ''sentry-trace'' =
        Some (traceId s @ ''-'' @ spanId s @
          (case sampled s of None \<Rightarrow> [] | Some d \<Rightarrow> (if d then ''-1'' else ''-0''))))"
  by (auto simp: traceHeaders_def toTraceparent_def split: option.splits bool.splits)

theorem traceHeaders_contract_witness:
  "traceHeaders (exSpanHub ''abc123'' ''def456'' (Some True)) ''sentry-trace'' =
      Some ''abc123-def456-1'' \<and>
   traceHeaders (exSpanHub ''abc123'' ''def456'' None) ''sentry-trace'' =
      Some ''abc123-def456'' \<and>
   dom (traceHeaders (exSpanHub ''abc123'' ''def456'' None)) = {''sentry-trace''} \<and>
   traceHeaders noClientHub = Map.empty \<and>
   traceHeaders \<lparr>getClient = None, getScope = Some \<lparr>getSpan = None\<rparr>\<rparr> = Map.empty"
  using traceHeaders_contract [of "exSpanHub ''abc123'' ''def456'' (Some True)"]
    traceHeaders_contract [of "exSpanHub ''abc123'' ''def456'' None"]
    traceHeaders_contract [of noClientHub]
    traceHeaders_contract [of "\<lparr>getClient = None, getScope = Some \<lparr>getSpan = None\<rparr>\<rparr>"]
  by (simp add: exSpanHub_def noClientHub_def)

section \<open>Properties of the registration\<close>

lemma registerIfMissing_keeps:
  "exts k = Some f \<Longrightarrow> registerIfMissing k' g exts k = Some f"
  by (auto simp: registerIfMissing_def split: option.splits)

lemma getMainCarrier_present: "sentry c = Some s \<Longrightarrow> getMainCarrier c = c"
  by (simp add: getMainCarrier_def)

lemma addTracingExtensions_keeps:
  "registered c k = Some f \<Longrightarrow> registered (addTracingExtensions c) k = Some f"
  by (auto simp: registered_def addTracingExtensions_def getMainCarrier_def
      registerIfMissing_keeps split: option.splits)

lemma addTracingExtensions_idem:
  "addTracingExtensions (addTracingExtensions c) = addTracingExtensions c"
  by (auto simp: addTracingExtensions_def getMainCarrier_def registerIfMissing_def
      split: option.splits)

text \<open>
  Claim C8. Registration is idempotent, and the first writer wins: an implementation
  that is registered under a name, \<^verbatim>\<open>startTransaction\<close> and \<^verbatim>\<open>traceHeaders\<close> among them, is
  still the one registered under it after any number of calls of
  \<^verbatim>\<open>_addTracingExtensions\<close>, and a second call changes nothing of the carrier.
\<close>

theorem addTracingExtensions_first_writer_wins:
  assumes "registered c k = Some f"
  shows "registered ((addTracingExtensions ^^ n) c) k = Some f \<and>
         addTracingExtensions (addTracingExtensions c) = addTracingExtensions c"
proof (induction n)
  case 0
  show ?case using assms by (simp add: addTracingExtensions_idem)
next
  case (Suc n)
  then show ?case by (simp add: addTracingExtensions_keeps)
qed

text \<open>
  Another module's \<^verbatim>\<open>startTransaction\<close> survives two registrations, and the function of
  this module, once registered, survives a second one.
\<close>

theorem addTracingExtensions_first_writer_wins_witness:
  "registered ((addTracingExtensions ^^ 2) exCarrier) ''startTransaction'' = Some (Other 7) \<and>
   registered (addTracingExtensions exCarrier) ''traceHeaders'' = Some TraceHeaders \<and>
   registered ((addTracingExtensions ^^ 1) (addTracingExtensions exCarrier)) ''traceHeaders'' =
     Some TraceHeaders"
proof -
  have start: "registered exCarrier ''startTransaction'' = Some (Other 7)"
    by (simp add: registered_def exCarrier_def)
  have headers: "registered (addTracingExtensions exCarrier) ''traceHeaders'' = Some TraceHeaders"
    by (simp add: registered_def addTracingExtensions_def getMainCarrier_def
        registerIfMissing_def exCarrier_def)
  show ?thesis
    using addTracingExtensions_first_writer_wins [OF start, of 2]
      addTracingExtensions_first_writer_wins [OF headers, of 1] headers
    by simp
qed

text \<open>
  Claim C10, as stated: if the main carrier has no \<^verbatim>\<open>__SENTRY__\<close> property,
  \<^verbatim>\<open>_addTracingExtensions\<close> leaves it unchanged, creates no table of extensions and
  registers neither operation. It fails: the carrier comes from \<^verbatim>\<open>getMainCarrier\<close>, which
  installs \<^verbatim>\<open>__SENTRY__\<close> when it is missing, so the guard that follows always passes. On
  a global object without \<^verbatim>\<open>__SENTRY__\<close> the call changes the object and registers both
  operations.
\<close>

theorem addTracingExtensions_without_sentry_registers:
  "addTracingExtensions \<lparr>sentry = None\<rparr> \<noteq> \<lparr>sentry = None\<rparr> \<and>
   registered (addTracingExtensions \<lparr>sentry = None\<rparr>) ''startTransaction'' =
     Some StartTransaction \<and>
   registered (addTracingExtensions \<lparr>sentry = None\<rparr>) ''traceHeaders'' = Some TraceHeaders"
  by (simp add: addTracingExtensions_def getMainCarrier_def registerIfMissing_def
      registered_def)

text \<open>
  Claim C10, amended: if the global object has no \<^verbatim>\<open>__SENTRY__\<close> property,
  \<^verbatim>\<open>_addTracingExtensions\<close> does not fail and does not do nothing: \<^verbatim>\<open>__SENTRY__\<close> is
  created with a table of extensions that holds this module's \<^verbatim>\<open>startTransaction\<close> and
  \<^verbatim>\<open>traceHeaders\<close> and nothing else, and with no hub.
\<close>

theorem addTracingExtensions_creates_sentry:
  assumes "sentry g = None"
  shows "addTracingExtensions g =
           g\<lparr>sentry := Some
               \<lparr>extensions =
                  Some [''startTransaction'' \<mapsto> StartTransaction, ''traceHeaders'' \<mapsto> TraceHeaders],
                globalHub = None\<rparr>\<rparr> \<and>
         registered (addTracingExtensions g) ''startTransaction'' = Some StartTransaction \<and>
         registered (addTracingExtensions g) ''traceHeaders'' = Some TraceHeaders"
  using assms
  by (simp add: addTracingExtensions_def getMainCarrier_def registerIfMissing_def
      registered_def)

theorem addTracingExtensions_creates_sentry_witness:
  "addTracingExtensions \<lparr>sentry = None\<rparr> =
     \<lparr>sentry = Some
        \<lparr>extensions =
           Some [''startTransaction'' \<mapsto> StartTransaction, ''traceHeaders'' \<mapsto> TraceHeaders],
         globalHub = None\<rparr>\<rparr> \<and>
   registered (addTracingExtensions \<lparr>sentry = None\<rparr>) ''startTransaction'' =
     Some StartTransaction \<and>
   registered (addTracingExtensions \<lparr>sentry = None\<rparr>) ''traceHeaders'' = Some TraceHeaders"
proof -
  have "sentry \<lparr>sentry = None\<rparr> = None"
    by simp
  from addTracingExtensions_creates_sentry [OF this] show ?thesis
    by (simp add: registered_def)
qed

end
